theory Spec2Isabelle
  imports Complex_Main "HOL-Library.Multiset"
begin

section \<open>Data model\<close>

text \<open>
  One row of the table that \<^verbatim>\<open>fetch_arxiv_papers\<close> builds: the dictionary appended to
  \<^verbatim>\<open>all_entries\<close>. The column \<^verbatim>\<open>text\<close> is called \<open>paper_text\<close> here. A data frame is
  the list of its rows; the frame without rows, \<^verbatim>\<open>pd.DataFrame()\<close> or
  \<^verbatim>\<open>pd.DataFrame([])\<close>, has no columns either and is the empty list.
\<close>

record paper =
  title :: string
  abstract :: string
  paper_text :: string
  authors :: string
  year :: string
  pdf_link :: "string option"

type_synonym dataframe = "paper list"

text \<open>The exceptions the two scripts can meet, as values.\<close>

datatype error =
    KeyError string
  | AttributeError
  | TypeError
  | IndexError
  | ValueError
  | ParseError
  | RequestException

section \<open>Python strings, slices and \<^verbatim>\<open>int\<close>\<close>

text \<open>
  Strings are modelled as byte strings; the operations below are Python's on ASCII text.
  \<open>is_space\<close> is the ASCII part of what \<^verbatim>\<open>str.strip\<close> and \<^verbatim>\<open>int\<close> treat as white space.
  \<open>py_int\<close> reads an optional sign and decimal digits; the interpreter's bound on the
  number of digits of one numeral is left out.
\<close>

definition is_space :: "char \<Rightarrow> bool" where
  "is_space c = (let n = (of_char c :: nat) in (9 \<le> n \<and> n \<le> 13) \<or> (28 \<le> n \<and> n \<le> 32))"

definition strip :: "string \<Rightarrow> string" where
  "strip s = rev (dropWhile is_space (rev (dropWhile is_space s)))"

definition lower :: "string \<Rightarrow> string" where
  "lower s = map (\<lambda>c. let n = (of_char c :: nat) in
                       if 65 \<le> n \<and> n \<le> 90 then char_of (n + 32) else c) s"

definition replace_newlines :: "string \<Rightarrow> string" where
  \<comment> \<open>\<^verbatim>\<open>s.replace("\n", " ")\<close>\<close>
  "replace_newlines s = map (\<lambda>c. if c = CHR 0x0A then CHR '' '' else c) s"

definition slice_to :: "'a list \<Rightarrow> int \<Rightarrow> 'a list" where
  \<comment> \<open>\<^verbatim>\<open>xs[:k]\<close>: a negative bound counts from the end\<close>
  "slice_to xs k = (if k < 0 then take (nat (int (length xs) + k)) xs else take (nat k) xs)"


definition is_digit :: "char \<Rightarrow> bool" where
  "is_digit c = (let n = (of_char c :: nat) in 48 \<le> n \<and> n \<le> 57)"

definition digit_val :: "char \<Rightarrow> nat" where
  "digit_val c = of_char c - 48"

fun digits_ok :: "string \<Rightarrow> bool" where
  \<comment> \<open>decimal digits, single underscores allowed between two digits\<close>
  "digits_ok [] = False"
| "digits_ok [c] = is_digit c"
| "digits_ok (c # d # r) =
     (is_digit c \<and> (if d = CHR ''_'' then digits_ok r else digits_ok (d # r)))"

definition dec_value :: "string \<Rightarrow> nat" where
  "dec_value ds = foldl (\<lambda>a c. 10 * a + digit_val c) 0 (filter (\<lambda>c. c \<noteq> CHR ''_'') ds)"

definition py_int :: "string \<Rightarrow> int option" where
  \<comment> \<open>\<^verbatim>\<open>int(s)\<close> in base 10; \<open>None\<close> stands for the \<^verbatim>\<open>ValueError\<close>\<close>
  "py_int s =
     (let body = strip s;
          (sgn, ds) = (case body of
                         c # r \<Rightarrow> if c = CHR ''-'' then (- 1, r)
                                  else if c = CHR ''+'' then (1, r)
                                  else (1, body)
                       | [] \<Rightarrow> (1, body))
      in if digits_ok ds then Some (sgn * int (dec_value ds)) else None)"

fun to_dec :: "nat \<Rightarrow> string" where
  \<comment> \<open>the decimal numeral of a number, as a user would type it\<close>
  "to_dec n = (if n < 10 then [char_of (48 + n)]
               else to_dec (n div 10) @ [char_of (48 + n mod 10)])"

declare to_dec.simps [simp del]

section \<open>The library routines the ranking calls\<close>

text \<open>
  \<^verbatim>\<open>numpy.argsort\<close> is a parameter \<open>srt\<close> of the model. Its contract is \<open>is_argsort\<close>: the
  result is a permutation of the positions that lists the keys in ascending order. The
  default sorting kind promises nothing about equal keys; \<open>stable_argsort\<close> is the
  argsort that keeps equal keys in position order.
\<close>

definition is_argsort :: "real list \<Rightarrow> nat list \<Rightarrow> bool" where
  "is_argsort ks idx =
     (mset idx = mset [0..<length ks] \<and> sorted (map (\<lambda>i. ks ! i) idx))"

definition stable_argsort :: "real list \<Rightarrow> nat list" where
  "stable_argsort ks = sort_key (\<lambda>i. ks ! i) [0..<length ks]"

text \<open>
  The fitted \<^verbatim>\<open>TfidfVectorizer\<close>: its tokenizer (lower-casing and token pattern), its
  stop-word list, the vocabulary in column order and one inverse document frequency per
  column (in a fitted vectorizer the two lists have the same length). Weights are real
  numbers; the library computes them in double precision, so what is proved below about
  the order of given scores and about scores that are exactly zero carries over, while a
  comparison of two rounded dot products would not.
\<close>

record vectorizer =
  tokenize :: "string \<Rightarrow> string list"
  stop_words :: "string list"
  vocabulary :: "string list"
  idf :: "real list"

definition analyzer :: "vectorizer \<Rightarrow> string \<Rightarrow> string list" where
  "analyzer vect doc = filter (\<lambda>t. t \<notin> set (stop_words vect)) (tokenize vect doc)"

definition l2_normalize :: "real list \<Rightarrow> real list" where
  "l2_normalize v =
     (let nrm = sqrt (sum_list (map (\<lambda>x. x * x) v))
      in if nrm = 0 then v else map (\<lambda>x. x / nrm) v)"

definition transform :: "vectorizer \<Rightarrow> string \<Rightarrow> real list" where
  \<comment> \<open>\<^verbatim>\<open>vect.transform([query])\<close>: term counts over the vocabulary, times idf, row-normalised\<close>
  "transform vect doc =
     l2_normalize (map2 (\<lambda>t w. real (count_list (analyzer vect doc) t) * w)
                        (vocabulary vect) (idf vect))"

definition dot :: "real list \<Rightarrow> real list \<Rightarrow> real" where
  "dot u v = sum_list (map2 (*) u v)"

definition linear_kernel :: "real list \<Rightarrow> real list list \<Rightarrow> real list" where
  \<comment> \<open>\<^verbatim>\<open>linear_kernel(qv, X).flatten()\<close>: one dot product per row of \<open>X\<close>\<close>
  "linear_kernel qv X = map (dot qv) X"

definition iloc :: "dataframe \<Rightarrow> nat list \<Rightarrow> error + dataframe" where
  \<comment> \<open>\<^verbatim>\<open>df.iloc[idx].copy().reset_index(drop=True)\<close>\<close>
  "iloc df idx =
     (if list_all (\<lambda>i. i < length df) idx then Inr (map (\<lambda>i. df ! i) idx)
      else Inl IndexError)"

section \<open>Ranking\<close>

definition sims_of :: "string \<Rightarrow> vectorizer \<Rightarrow> real list list \<Rightarrow> real list" where
  "sims_of query vect X = linear_kernel (transform vect query) X"

definition rank_idx :: "(real list \<Rightarrow> nat list) \<Rightarrow> real list \<Rightarrow> int \<Rightarrow> nat list" where
  \<comment> \<open>line mode: \<^verbatim>\<open>np.argsort(-sims)[:top_k]\<close>\<close>
  "rank_idx srt sims top_k = slice_to (srt (map uminus sims)) top_k"


definition shapes_agree :: "vectorizer \<Rightarrow> real list list \<Rightarrow> bool" where
  \<comment> \<open>the matrix has one column per vocabulary term\<close>
  "shapes_agree vect X = list_all (\<lambda>row. length row = length (vocabulary vect)) X"

definition recommend_papers ::
  "(real list \<Rightarrow> nat list) \<Rightarrow> string \<Rightarrow> dataframe \<Rightarrow> vectorizer \<Rightarrow> real list list \<Rightarrow> int
     \<Rightarrow> error + dataframe" where
  "recommend_papers srt query df vect X top_k =
     (if \<not> shapes_agree vect X then Inl ValueError
      else let sims = sims_of query vect X;
               idx = rank_idx srt sims top_k
           in iloc df idx)"


section \<open>Building the index\<close>

text \<open>
  \<^verbatim>\<open>TfidfVectorizer(max_features=10000, stop_words='english').fit_transform\<close> is the
  parameter \<open>fit_transform\<close>: from the texts it gives the fitted vectorizer and the weight
  matrix, or raises. \<^verbatim>\<open>df['text']\<close> raises \<^verbatim>\<open>KeyError\<close> on the frame without columns.
\<close>

definition build_tfidf ::
  "(string list \<Rightarrow> error + vectorizer \<times> real list list) \<Rightarrow> dataframe
     \<Rightarrow> error + vectorizer \<times> real list list" where
  "build_tfidf fit_transform df =
     (case df of [] \<Rightarrow> Inl (KeyError ''text'') | _ # _ \<Rightarrow> fit_transform (map paper_text df))"

section \<open>Fetching\<close>

text \<open>
  The parsed response: an element has a qualified tag, its attributes, its text (absent
  for an element without character data) and its children in document order.
\<close>

datatype element =
  Element (tag: string) (attrib: "(string \<times> string) list") (etext: "string option")
          (children: "element list")

record response =
  status_code :: int
  body :: string

definition atom :: "string \<Rightarrow> string" where
  "atom name = ''{http://www.w3.org/2005/Atom}'' @ name"

definition findall :: "element \<Rightarrow> string \<Rightarrow> element list" where
  "findall e name = filter (\<lambda>c. tag c = atom name) (children e)"

definition find_elem :: "element \<Rightarrow> string \<Rightarrow> element option" where
  "find_elem e name = (case findall e name of [] \<Rightarrow> None | c # _ \<Rightarrow> Some c)"

definition find_text :: "element \<Rightarrow> string \<Rightarrow> error + string" where
  \<comment> \<open>\<^verbatim>\<open>e.find(name).text\<close> used as a string: a missing child or missing text raises\<close>
  "find_text e name =
     (case find_elem e name of
        None \<Rightarrow> Inl AttributeError
      | Some c \<Rightarrow> (case etext c of None \<Rightarrow> Inl AttributeError | Some t \<Rightarrow> Inr t))"

fun pdf_loop :: "string option \<Rightarrow> element list \<Rightarrow> error + string option" where
  "pdf_loop pdf [] = Inr pdf"
| "pdf_loop pdf (link # links) =
     (if map_of (attrib link) ''title'' = Some ''pdf''
      then (case map_of (attrib link) ''href'' of
              None \<Rightarrow> Inl (KeyError ''href'')
            | Some h \<Rightarrow> pdf_loop (Some h) links)
      else pdf_loop pdf links)"

fun author_names :: "element list \<Rightarrow> error + string option list" where
  "author_names [] = Inr []"
| "author_names (a # as) =
     (case find_elem a ''name'' of
        None \<Rightarrow> Inl AttributeError
      | Some n \<Rightarrow> (case author_names as of
                     Inl err \<Rightarrow> Inl err
                   | Inr ns \<Rightarrow> Inr (etext n # ns)))"

fun join :: "string \<Rightarrow> string list \<Rightarrow> string" where
  "join sep [] = []"
| "join sep [x] = x"
| "join sep (x # y # ys) = x @ sep @ join sep (y # ys)"

definition parse_entry :: "element \<Rightarrow> error + paper" where
  "parse_entry e =
     (case find_text e ''title'' of
        Inl err \<Rightarrow> Inl err
      | Inr t \<Rightarrow>
     (case find_text e ''summary'' of
        Inl err \<Rightarrow> Inl err
      | Inr s \<Rightarrow>
     (case pdf_loop None (findall e ''link'') of
        Inl err \<Rightarrow> Inl err
      | Inr pdf \<Rightarrow>
     (case author_names (findall e ''author'') of
        Inl err \<Rightarrow> Inl err
      | Inr ns \<Rightarrow>
     (if None \<in> set ns then Inl TypeError
      else
     (case find_elem e ''published'' of
        None \<Rightarrow> Inl AttributeError
      | Some p \<Rightarrow>
     (case etext p of
        None \<Rightarrow> Inl TypeError
      | Some stamp \<Rightarrow>
          (let title = replace_newlines (strip t);
               abstract = replace_newlines (strip s);
               published = take 10 stamp
           in Inr \<lparr>title = title, abstract = abstract,
                   paper_text = title @ ''. '' @ abstract,
                   authors = join '', '' (map the ns),
                   year = take 4 published,
                   pdf_link = pdf\<rparr>))))))))"

fun parse_entries :: "element list \<Rightarrow> error + dataframe" where
  "parse_entries [] = Inr []"
| "parse_entries (e # es) =
     (case parse_entry e of
        Inl err \<Rightarrow> Inl err
      | Inr p \<Rightarrow> (case parse_entries es of Inl err \<Rightarrow> Inl err | Inr ps \<Rightarrow> Inr (p # ps)))"

text \<open>
  The request itself is outside the model: \<open>fetch_arxiv_papers\<close> takes what
  \<^verbatim>\<open>requests.get\<close> gave (a response, or the exception it raised) and the XML parser
  \<^verbatim>\<open>ET.fromstring\<close> as the parameter \<open>fromstring\<close> (\<open>None\<close> for a parse error).
\<close>

definition fetch_arxiv_papers ::
  "(string \<Rightarrow> element option) \<Rightarrow> error + response \<Rightarrow> error + dataframe" where
  "fetch_arxiv_papers fromstring got =
     (case got of
        Inl err \<Rightarrow> Inl err
      | Inr r \<Rightarrow>
          if status_code r \<noteq> 200 then Inr []
          else (case fromstring (body r) of
                  None \<Rightarrow> Inl ParseError
                | Some feed \<Rightarrow> parse_entries (findall feed ''entry'')))"

section \<open>The line-mode loop\<close>

definition parse_top_k :: "string \<Rightarrow> int" where
  \<comment> \<open>\<^verbatim>\<open>try: top_k = int(topk_s) if topk_s else 10  except: top_k = 10\<close>\<close>
  "parse_top_k topk_s =
     (if topk_s = [] then 10 else (case py_int topk_s of Some v \<Rightarrow> v | None \<Rightarrow> 10))"

text \<open>
  The loop of \<^verbatim>\<open>main\<close> over the lines typed at its two prompts. Each round gives the
  \<^verbatim>\<open>top_k\<close> it used and what \<^verbatim>\<open>recommend_papers\<close> returned; the loop ends at
  \<^verbatim>\<open>exit\<close>/\<^verbatim>\<open>quit\<close>, at the end of the input, or with the exception of a failed round.
\<close>

fun query_loop ::
  "(real list \<Rightarrow> nat list) \<Rightarrow> dataframe \<Rightarrow> vectorizer \<Rightarrow> real list list \<Rightarrow> string list
     \<Rightarrow> (int \<times> (error + dataframe)) list" where
  "query_loop srt df vect X [] = []"
| "query_loop srt df vect X [q] = []"
| "query_loop srt df vect X (q # k # rest) =
     (let query = strip q
      in if lower query = ''exit'' \<or> lower query = ''quit'' then []
         else let top_k = parse_top_k (strip k);
                  recs = recommend_papers srt query df vect X top_k
              in (top_k, recs) #
                 (case recs of Inl err \<Rightarrow> [] | Inr res \<Rightarrow> query_loop srt df vect X rest))"

section \<open>Properties of a ranking\<close>





section \<open>A three-paper corpus\<close>

text \<open>
  Three papers, a vectorizer whose vocabulary is \<^verbatim>\<open>graph\<close> and \<^verbatim>\<open>neural\<close> and whose only stop
  word is \<^verbatim>\<open>the\<close>, and two weight matrices for them: under \<open>ex_X\<close> the second paper
  matches neither term, under \<open>ex_Y\<close> the query \<^verbatim>\<open>graph\<close> gives three different scores.
\<close>

definition ex_vect :: vectorizer where
  "ex_vect = \<lparr>tokenize = (\<lambda>s. [lower s]), stop_words = [''the''],
               vocabulary = [''graph'', ''neural''], idf = [1, 1]\<rparr>"

definition ex_X :: "real list list" where
  "ex_X = [[1, 0], [0, 0], [0, 1]]"

definition ex_p1 :: paper where
  "ex_p1 = \<lparr>title = ''graph coloring'', abstract = ''a'', paper_text = ''graph coloring. a'',
            authors = ''A'', year = ''2020'', pdf_link = None\<rparr>"

definition ex_p2 :: paper where
  "ex_p2 = \<lparr>title = ''deadlock detection'', abstract = ''b'',
            paper_text = ''deadlock detection. b'',
            authors = ''B'', year = ''2021'', pdf_link = None\<rparr>"

definition ex_p3 :: paper where
  "ex_p3 = \<lparr>title = ''neural nets'', abstract = ''c'', paper_text = ''neural nets. c'',
            authors = ''C'', year = ''2022'', pdf_link = Some ''http://arxiv.org/pdf/1''\<rparr>"

definition ex_df :: dataframe where
  "ex_df = [ex_p1, ex_p2, ex_p3]"


section \<open>Properties of a parsed entry\<close>

text \<open>The links of an entry whose \<^verbatim>\<open>title\<close> attribute is \<^verbatim>\<open>pdf\<close>, in document order.\<close>

definition pdf_links :: "element \<Rightarrow> element list" where
  "pdf_links e = filter (\<lambda>l. map_of (attrib l) ''title'' = Some ''pdf'') (findall e ''link'')"

text \<open>An entry with two such links, and the record it is parsed to.\<close>

definition ex_entry :: element where
  "ex_entry = Element (atom ''entry'') [] None
     [Element (atom ''title'') [] (Some '' Graph coloring '') [],
      Element (atom ''summary'') [] (Some ''We colour graphs.'') [],
      Element (atom ''link'') [(''href'', ''http://arxiv.org/abs/1''), (''rel'', ''alternate'')] None [],
      Element (atom ''link'') [(''title'', ''pdf''), (''href'', ''http://arxiv.org/pdf/1v1'')] None [],
      Element (atom ''link'') [(''title'', ''pdf''), (''href'', ''http://arxiv.org/pdf/1v2'')] None [],
      Element (atom ''author'') [] None [Element (atom ''name'') [] (Some ''A. Author'') []],
      Element (atom ''author'') [] None [Element (atom ''name'') [] (Some ''B. Author'') []],
      Element (atom ''published'') [] (Some ''2020-01-02T03:04:05Z'') []]"

definition ex_parsed :: paper where
  "ex_parsed = \<lparr>title = ''Graph coloring'', abstract = ''We colour graphs.'',
                paper_text = ''Graph coloring. We colour graphs.'',
                authors = ''A. Author, B. Author'', year = ''2020'',
                pdf_link = Some ''http://arxiv.org/pdf/1v2''\<rparr>"

section \<open>What a session asks\<close>


text \<open>A feed without entries, a stand-in for \<^verbatim>\<open>fit_transform\<close>, and a short session.\<close>

definition ex_feed :: element where
  "ex_feed = Element (atom ''feed'') [] None [Element (atom ''title'') [] (Some ''arXiv'') []]"



section \<open>Slices, argsort and the two rankings\<close>

lemma length_sims_of: "length (sims_of query vect X) = length X"
  by (simp add: sims_of_def linear_kernel_def)

lemma is_argsort_length: "is_argsort ks idx \<Longrightarrow> length idx = length ks"
  unfolding is_argsort_def by (metis size_mset length_upt diff_zero)

lemma is_argsort_set: "is_argsort ks idx \<Longrightarrow> set idx = {0..<length ks}"
  unfolding is_argsort_def by (metis set_mset_mset set_upt)


lemma stable_argsort_is_argsort: "is_argsort ks (stable_argsort ks)"
  by (simp add: is_argsort_def stable_argsort_def)




lemma iloc_ok: "set idx \<subseteq> {0..<length df} \<Longrightarrow> iloc df idx = Inr (map (\<lambda>i. df ! i) idx)"
  by (auto simp: iloc_def list_all_iff)

lemma set_slice_to: "set (slice_to xs k) \<subseteq> set xs"
  by (auto simp: slice_to_def dest: in_set_takeD)


lemma recommend_papers_eq:
  assumes "shapes_agree vect X" "length X = length df"
    and "is_argsort (map uminus (sims_of query vect X)) (srt (map uminus (sims_of query vect X)))"
  shows "recommend_papers srt query df vect X top_k =
           Inr (map (\<lambda>i. df ! i) (rank_idx srt (sims_of query vect X) top_k))"
proof -
  have "set (srt (map uminus (sims_of query vect X))) = {0..<length df}"
    using is_argsort_set[OF assms(3)] assms(2) by (simp add: length_sims_of)
  then have "set (rank_idx srt (sims_of query vect X) top_k) \<subseteq> {0..<length df}"
    unfolding rank_idx_def using set_slice_to by fastforce
  then show ?thesis
    using assms(1) by (simp add: recommend_papers_def iloc_ok)
qed












lemma ex_shapes: "shapes_agree ex_vect ex_X"
  by (simp add: shapes_agree_def ex_vect_def ex_X_def)






section \<open>Size of the result\<close>



section \<open>Order of the result\<close>




section \<open>Queries that match nothing\<close>















section \<open>The two surfaces compared\<close>









section \<open>The PDF link of an entry\<close>

lemma ex_parse_entry: "parse_entry ex_entry = Inr ex_parsed"
  by (simp add: parse_entry_def ex_entry_def ex_parsed_def find_text_def find_elem_def
      findall_def atom_def strip_def is_space_def replace_newlines_def Let_def)

lemma ex_pdf_links:
  "pdf_links ex_entry =
     [Element (atom ''link'') [(''title'', ''pdf''), (''href'', ''http://arxiv.org/pdf/1v1'')] None [],
      Element (atom ''link'') [(''title'', ''pdf''), (''href'', ''http://arxiv.org/pdf/1v2'')] None []]"
  by (simp add: pdf_links_def ex_entry_def findall_def atom_def)

lemma pdf_loop_last:
  assumes "pdf_loop acc links = Inr r"
  shows "r = (if filter (\<lambda>l. map_of (attrib l) ''title'' = Some ''pdf'') links = [] then acc
              else map_of (attrib (last (filter (\<lambda>l. map_of (attrib l) ''title'' = Some ''pdf'')
                                            links))) ''href'')
       \<and> (filter (\<lambda>l. map_of (attrib l) ''title'' = Some ''pdf'') links \<noteq> [] \<longrightarrow> r \<noteq> None)"
  using assms
proof (induction links arbitrary: acc)
  case Nil
  then show ?case by simp
next
  case (Cons link links)
  let ?F = "filter (\<lambda>l. map_of (attrib l) ''title'' = Some ''pdf'') links"
  show ?case
  proof (cases "map_of (attrib link) ''title'' = Some ''pdf''")
    case True
    then obtain h where h: "map_of (attrib link) ''href'' = Some h"
      and rest: "pdf_loop (Some h) links = Inr r"
      using Cons.prems by (auto split: option.splits)
    have ih: "r = (if ?F = [] then Some h else map_of (attrib (last ?F)) ''href'')"
      "?F \<noteq> [] \<longrightarrow> r \<noteq> None"
      using Cons.IH[OF rest] by blast+
    show ?thesis
    proof (cases "?F = []")
      case True
      with ih h \<open>map_of (attrib link) ''title'' = Some ''pdf''\<close> show ?thesis by simp
    next
      case False
      with ih \<open>map_of (attrib link) ''title'' = Some ''pdf''\<close> show ?thesis by simp
    qed
  next
    case False
    then have rest: "pdf_loop acc links = Inr r" using Cons.prems by simp
    have ih: "r = (if ?F = [] then acc else map_of (attrib (last ?F)) ''href'')"
      "?F \<noteq> [] \<longrightarrow> r \<noteq> None"
      using Cons.IH[OF rest] by blast+
    show ?thesis
    proof (cases "?F = []")
      case True
      with ih(1) False show ?thesis by simp
    next
      case nonempty: False
      with ih False show ?thesis by simp
    qed
  qed
qed

lemma parse_entry_pdf:
  assumes "parse_entry e = Inr p"
  shows "pdf_loop None (findall e ''link'') = Inr (pdf_link p)"
  using assms
  by (auto simp: parse_entry_def Let_def split: sum.splits option.splits if_splits)

text \<open>
  C6, as the code has it. The loop over the links has no \<^verbatim>\<open>break\<close>, so every later match
  overwrites \<^verbatim>\<open>pdf_link\<close>: for every entry that parses, \<^verbatim>\<open>pdf_link\<close> is the \<^verbatim>\<open>href\<close> of the
  last link whose title is \<^verbatim>\<open>pdf\<close>, and it is absent exactly when no link has that title.
\<close>

theorem pdf_link_is_last_pdf_link:
  assumes "parse_entry e = Inr p"
  shows "pdf_link p = (if pdf_links e = [] then None
                       else map_of (attrib (last (pdf_links e))) ''href'')
       \<and> (pdf_link p = None \<longleftrightarrow> pdf_links e = [])"
proof -
  have "pdf_link p = (if pdf_links e = [] then None
                      else map_of (attrib (last (pdf_links e))) ''href'')"
    and "pdf_links e \<noteq> [] \<longrightarrow> pdf_link p \<noteq> None"
    using pdf_loop_last[OF parse_entry_pdf[OF assms]] unfolding pdf_links_def by blast+
  then show ?thesis by (cases "pdf_links e = []") simp_all
qed

theorem pdf_link_is_last_pdf_link_witness:
  "parse_entry ex_entry = Inr ex_parsed
   \<and> pdf_link ex_parsed = map_of (attrib (last (pdf_links ex_entry))) ''href''
   \<and> pdf_link ex_parsed \<noteq> None \<and> pdf_links ex_entry \<noteq> []"
  using pdf_link_is_last_pdf_link[OF ex_parse_entry] ex_parse_entry
  by (simp add: ex_pdf_links)

text \<open>
  C6 as stated fails for an entry with two links titled \<^verbatim>\<open>pdf\<close>: the record carries the
  second link's address, not the first's.
\<close>

theorem pdf_link_first_counterexample:
  "parse_entry ex_entry = Inr ex_parsed
   \<and> map_of (attrib (hd (pdf_links ex_entry))) ''href'' = Some ''http://arxiv.org/pdf/1v1''
   \<and> pdf_link ex_parsed = Some ''http://arxiv.org/pdf/1v2''
   \<and> pdf_link ex_parsed \<noteq> map_of (attrib (hd (pdf_links ex_entry))) ''href''"
  by (simp add: ex_parse_entry ex_pdf_links ex_parsed_def)

section \<open>A failed fetch\<close>

text \<open>
  C5. On any status other than 200 \<^verbatim>\<open>fetch_arxiv_papers\<close> returns the frame without rows,
  the same value as a successful fetch whose feed has no entry; \<^verbatim>\<open>build_tfidf\<close> on that frame
  raises (the frame has no \<^verbatim>\<open>text\<close> column) and gives no index.
\<close>

theorem failed_fetch_is_empty_corpus:
  assumes "status_code r \<noteq> 200"
  shows "fetch_arxiv_papers fromstring (Inr r) = Inr []
       \<and> (status_code r' = 200 \<and> fromstring (body r') = Some feed \<and> findall feed ''entry'' = []
            \<longrightarrow> fetch_arxiv_papers fromstring (Inr r') = fetch_arxiv_papers fromstring (Inr r))
       \<and> build_tfidf fit_transform [] = Inl (KeyError ''text'')"
  using assms by (simp add: fetch_arxiv_papers_def build_tfidf_def)

theorem failed_fetch_is_empty_corpus_witness:
  "status_code \<lparr>status_code = 503, body = ''Service Unavailable''\<rparr> \<noteq> 200
   \<and> fetch_arxiv_papers (\<lambda>s. Some ex_feed) (Inr \<lparr>status_code = 503, body = ''Service Unavailable''\<rparr>)
       = Inr []
   \<and> findall ex_feed ''entry'' = []
   \<and> fetch_arxiv_papers (\<lambda>s. Some ex_feed) (Inr \<lparr>status_code = 200, body = ''<feed/>''\<rparr>)
       = fetch_arxiv_papers (\<lambda>s. Some ex_feed)
           (Inr \<lparr>status_code = 503, body = ''Service Unavailable''\<rparr>)
   \<and> build_tfidf (\<lambda>texts. Inr (ex_vect, ex_X)) [] = Inl (KeyError ''text'')"
proof -
  have bad: "status_code \<lparr>status_code = 503, body = ''Service Unavailable''\<rparr> \<noteq> 200" by simp
  have none: "findall ex_feed ''entry'' = []"
    by (simp add: findall_def ex_feed_def atom_def)
  show ?thesis
    using failed_fetch_is_empty_corpus[OF bad, of "\<lambda>s. Some ex_feed"
        "\<lparr>status_code = 200, body = ''<feed/>''\<rparr>" ex_feed "\<lambda>texts. Inr (ex_vect, ex_X)"] none
    by simp
qed

section \<open>The line-mode loop\<close>


lemma py_int_Nil: "py_int [] = None"
  by (simp add: py_int_def strip_def)

lemma query_loop_step:
  assumes "lower (strip q) \<noteq> ''exit''" and "lower (strip q) \<noteq> ''quit''"
  shows "\<exists>more. query_loop srt df vect X (q # k # rest)
           = (parse_top_k (strip k),
              recommend_papers srt (strip q) df vect X (parse_top_k (strip k))) # more"
  using assms by (simp add: Let_def)


lemma ex_lower_graph: "lower ''graph'' = ''graph''"
  by (simp add: lower_def)

lemma ex_strip_graph: "strip ''graph'' = ''graph''"
  by (simp add: strip_def is_space_def)



lemma ex_py_int_abc: "py_int (strip ''abc'') = None"
  by (simp add: py_int_def strip_def is_space_def is_digit_def)

lemma ex_py_int_7: "py_int (strip ''7'') = Some 7"
  by (simp add: py_int_def strip_def is_space_def is_digit_def dec_value_def digit_val_def)

lemma ex_py_int_0: "py_int ''0'' = Some 0"
  by (simp add: py_int_def strip_def is_space_def is_digit_def dec_value_def digit_val_def)

lemma ex_strip_0: "strip ''0'' = ''0''"
  by (simp add: strip_def is_space_def)

text \<open>
  C9, as the code has it. In a round of the loop, an empty or unparsable \<^verbatim>\<open>top_k\<close> input
  makes \<^verbatim>\<open>recommend_papers\<close> run with 10; an input that parses as an integer is passed on
  as it is, whatever its sign.
\<close>

theorem default_top_k_on_unparsable:
  assumes "lower (strip q) \<noteq> ''exit''" and "lower (strip q) \<noteq> ''quit''"
  shows "(strip k = [] \<or> py_int (strip k) = None
            \<longrightarrow> (\<exists>more. query_loop srt df vect X (q # k # rest)
                   = (10, recommend_papers srt (strip q) df vect X 10) # more))
       \<and> (py_int (strip k) = Some v
            \<longrightarrow> (\<exists>more. query_loop srt df vect X (q # k # rest)
                   = (v, recommend_papers srt (strip q) df vect X v) # more))"
proof -
  have "strip k = [] \<or> py_int (strip k) = None \<Longrightarrow> parse_top_k (strip k) = 10"
    by (auto simp: parse_top_k_def)
  moreover have "py_int (strip k) = Some v \<Longrightarrow> strip k \<noteq> []"
    using py_int_Nil by auto
  then have "py_int (strip k) = Some v \<Longrightarrow> parse_top_k (strip k) = v"
    by (simp add: parse_top_k_def)
  ultimately show ?thesis
    using query_loop_step[OF assms, of srt df vect X k rest] by metis
qed

theorem default_top_k_on_unparsable_witness:
  "lower (strip ''graph'') \<noteq> ''exit'' \<and> lower (strip ''graph'') \<noteq> ''quit''
   \<and> py_int (strip ''abc'') = None
   \<and> (\<exists>more. query_loop stable_argsort ex_df ex_vect ex_X [''graph'', ''abc'']
         = (10, recommend_papers stable_argsort ''graph'' ex_df ex_vect ex_X 10) # more)
   \<and> py_int (strip ''7'') = Some 7
   \<and> (\<exists>more. query_loop stable_argsort ex_df ex_vect ex_X [''graph'', ''7'']
         = (7, recommend_papers stable_argsort ''graph'' ex_df ex_vect ex_X 7) # more)"
proof -
  have ne: "lower (strip ''graph'') \<noteq> ''exit''" "lower (strip ''graph'') \<noteq> ''quit''"
    by (simp_all add: ex_strip_graph ex_lower_graph)
  show ?thesis
    using default_top_k_on_unparsable[OF ne, where k = "''abc''" and srt = stable_argsort
        and df = ex_df and vect = ex_vect and X = ex_X and rest = "[]"]
      default_top_k_on_unparsable[OF ne, where k = "''7''" and v = 7 and srt = stable_argsort
        and df = ex_df and vect = ex_vect and X = ex_X and rest = "[]"]
      ne ex_py_int_abc ex_py_int_7
    by (simp add: ex_strip_graph)
qed

text \<open>
  C9 as stated fails: the input \<^verbatim>\<open>0\<close> parses, no default is substituted, and
  \<^verbatim>\<open>recommend_papers\<close> runs with \<^verbatim>\<open>top_k = 0\<close>.
\<close>

theorem default_top_k_counterexample:
  "py_int ''0'' = Some 0 \<and> parse_top_k ''0'' = 0
   \<and> query_loop stable_argsort ex_df ex_vect ex_X [''graph'', ''0'']
       = [(0, recommend_papers stable_argsort ''graph'' ex_df ex_vect ex_X 0)]
   \<and> recommend_papers stable_argsort ''graph'' ex_df ex_vect ex_X 0 = Inr []"
proof -
  have r: "recommend_papers stable_argsort ''graph'' ex_df ex_vect ex_X 0 = Inr []"
    by (simp add: recommend_papers_def ex_shapes rank_idx_def slice_to_def iloc_def)
  have p: "parse_top_k ''0'' = 0"
    by (simp add: parse_top_k_def ex_py_int_0)
  show ?thesis
    by (simp add: ex_py_int_0 p r ex_lower_graph ex_strip_graph ex_strip_0 Let_def)
qed

section \<open>Determinism\<close>



section \<open>A negative \<^verbatim>\<open>top_k\<close>\<close>

lemma digit_char:
  assumes "d < 10"
  shows "is_digit (char_of (48 + d))" and "digit_val (char_of (48 + d)) = d"
    and "\<not> is_space (char_of (48 + d))" and "char_of (48 + d) \<noteq> CHR ''_''"
proof -
  show "is_digit (char_of (48 + d))" using assms by (simp add: is_digit_def)
  show "digit_val (char_of (48 + d)) = d" using assms by (simp add: digit_val_def)
  show "\<not> is_space (char_of (48 + d))" using assms by (simp add: is_space_def)
  show "char_of (48 + d) \<noteq> CHR ''_''"
  proof
    assume "char_of (48 + d) = CHR ''_''"
    then have "(of_char (char_of (48 + d) :: char) :: nat) = of_char (CHR ''_'')" by simp
    then show False using assms by simp
  qed
qed

lemma to_dec_digits: "to_dec n \<noteq> [] \<and> list_all is_digit (to_dec n)"
proof (induction n rule: to_dec.induct)
  case (1 n)
  show ?case
  proof (cases "n < 10")
    case True
    then show ?thesis by (subst (1 2) to_dec.simps) (simp add: digit_char)
  next
    case False
    have "n mod 10 < 10" by simp
    then have "is_digit (char_of (48 + n mod 10))" by (rule digit_char)
    with 1 False show ?thesis by (subst (1 2) to_dec.simps) simp
  qed
qed

lemma is_digit_not_underscore: "is_digit c \<Longrightarrow> c \<noteq> CHR ''_''"
  by (auto simp: is_digit_def Let_def)

lemma is_digit_not_space: "is_digit c \<Longrightarrow> \<not> is_space c"
  by (auto simp: is_digit_def is_space_def Let_def)

lemma digits_ok_all_digits: "ds \<noteq> [] \<Longrightarrow> list_all is_digit ds \<Longrightarrow> digits_ok ds"
proof (induction ds rule: digits_ok.induct)
  case 1
  then show ?case by simp
next
  case (2 c)
  then show ?case by simp
next
  case (3 c d r)
  then show ?case by (auto dest: is_digit_not_underscore)
qed

lemma dec_value_snoc:
  "c \<noteq> CHR ''_'' \<Longrightarrow> dec_value (ds @ [c]) = 10 * dec_value ds + digit_val c"
  by (simp add: dec_value_def)

lemma dec_value_to_dec: "dec_value (to_dec n) = n"
proof (induction n rule: to_dec.induct)
  case (1 n)
  show ?case
  proof (cases "n < 10")
    case True
    then show ?thesis
      by (subst to_dec.simps) (simp add: dec_value_def digit_char)
  next
    case False
    have d: "n mod 10 < 10" by simp
    have "dec_value (to_dec (n div 10) @ [char_of (48 + n mod 10)])
            = 10 * dec_value (to_dec (n div 10)) + digit_val (char_of (48 + n mod 10))"
      by (rule dec_value_snoc) (rule digit_char(4)[OF d])
    also have "\<dots> = 10 * (n div 10) + n mod 10"
      using 1 False digit_char(2)[OF d] by simp
    finally show ?thesis using False by (subst to_dec.simps) simp
  qed
qed

lemma strip_id:
  assumes "s \<noteq> []" and "\<not> is_space (hd s)" and "\<not> is_space (last s)"
  shows "strip s = s"
proof -
  have "dropWhile is_space s = s"
    using assms(1,2) by (cases s) simp_all
  moreover have "dropWhile is_space (rev s) = rev s"
    using assms(1,3) by (cases "rev s") (simp_all add: last_rev[symmetric] hd_rev)
  ultimately show ?thesis by (simp add: strip_def)
qed

lemma strip_minus_to_dec: "strip (CHR ''-'' # to_dec n) = CHR ''-'' # to_dec n"
proof (rule strip_id)
  show "CHR ''-'' # to_dec n \<noteq> []" by simp
  show "\<not> is_space (hd (CHR ''-'' # to_dec n))" by (simp add: is_space_def)
  have "is_digit (last (to_dec n))"
    using to_dec_digits[of n] by (simp add: list_all_iff)
  then show "\<not> is_space (last (CHR ''-'' # to_dec n))"
    using to_dec_digits[of n] by (simp add: is_digit_not_space)
qed

lemma py_int_minus_to_dec: "py_int (CHR ''-'' # to_dec n) = Some (- int n)"
  using to_dec_digits[of n]
  by (simp add: py_int_def strip_minus_to_dec digits_ok_all_digits dec_value_to_dec)

lemma parse_top_k_negative:
  assumes "t < 0"
  shows "parse_top_k (CHR ''-'' # to_dec (nat (- t))) = t"
  using assms by (simp add: parse_top_k_def py_int_minus_to_dec)

lemma length_rank_idx_negative:
  assumes "is_argsort (map uminus sims) (srt (map uminus sims))"
    and "t < 0" and "- t < int (length sims)"
  shows "length (rank_idx srt sims t) = length sims - nat (- t)"
proof -
  have "length (srt (map uminus sims)) = length sims"
    using is_argsort_length[OF assms(1)] by simp
  then show ?thesis
    using assms(2,3) by (simp add: rank_idx_def slice_to_def)
qed

lemma ex_minus_one: "CHR ''-'' # to_dec (nat (- (- 1))) = ''-1''"
proof -
  have "(of_char (CHR ''1'') :: nat) = 49" by simp
  then have "(char_of (49::nat) :: char) = CHR ''1''"
    by (metis char_of_char)
  then show ?thesis by (simp add: to_dec.simps)
qed

text \<open>
  C10. For a negative \<open>t\<close> with \<open>|t| < n\<close> the line-mode \<^verbatim>\<open>recommend_papers\<close> returns
  \<open>n - |t|\<close> records, the slice \<^verbatim>\<open>[:t]\<close> dropping the last \<open>|t|\<close> positions; and \<open>t\<close> reaches
  it, since the decimal numeral of \<open>t\<close> typed at the prompt parses to \<open>t\<close> and the loop passes
  it on.
\<close>

theorem negative_top_k_drops_tail:
  assumes "shapes_agree vect X" and "length X = length df"
    and "is_argsort (map uminus (sims_of query vect X)) (srt (map uminus (sims_of query vect X)))"
    and "t < 0" and "- t < int (length df)"
  shows "(\<exists>res. recommend_papers srt query df vect X t = Inr res
               \<and> length res = length df - nat (- t))
       \<and> parse_top_k (CHR ''-'' # to_dec (nat (- t))) = t
       \<and> (lower (strip q) \<noteq> ''exit'' \<and> lower (strip q) \<noteq> ''quit''
            \<longrightarrow> (\<exists>more. query_loop srt df vect X (q # (CHR ''-'' # to_dec (nat (- t))) # rest)
                   = (t, recommend_papers srt (strip q) df vect X t) # more))"
proof -
  have len: "length (rank_idx srt (sims_of query vect X) t) = length df - nat (- t)"
    using length_rank_idx_negative[where srt = srt, OF assms(3,4)] assms(2,5)
    by (simp add: length_sims_of)
  have res: "\<exists>res. recommend_papers srt query df vect X t = Inr res
               \<and> length res = length df - nat (- t)"
    using recommend_papers_eq[where srt = srt, OF assms(1,2,3), of t] len by simp
  have parse: "parse_top_k (strip (CHR ''-'' # to_dec (nat (- t)))) = t"
    using parse_top_k_negative[OF assms(4)] by (simp add: strip_minus_to_dec)
  have loop: "\<exists>more. query_loop srt df vect X (q # (CHR ''-'' # to_dec (nat (- t))) # rest)
                = (t, recommend_papers srt (strip q) df vect X t) # more"
    if "lower (strip q) \<noteq> ''exit''" "lower (strip q) \<noteq> ''quit''"
    using query_loop_step[OF that, of srt df vect X "CHR ''-'' # to_dec (nat (- t))" rest] parse
    by simp
  show ?thesis
    using res parse_top_k_negative[OF assms(4)] loop by blast
qed

theorem negative_top_k_drops_tail_witness:
  "shapes_agree ex_vect ex_X \<and> length ex_X = length ex_df
   \<and> (- 1 :: int) < 0 \<and> - (- 1) < int (length ex_df)
   \<and> (\<exists>res. recommend_papers stable_argsort ''graph'' ex_df ex_vect ex_X (- 1) = Inr res
             \<and> length res = 2)
   \<and> parse_top_k ''-1'' = - 1
   \<and> (\<exists>more. query_loop stable_argsort ex_df ex_vect ex_X [''graph'', ''-1'']
          = (- 1, recommend_papers stable_argsort ''graph'' ex_df ex_vect ex_X (- 1)) # more)"
proof -
  have len: "length ex_X = length ex_df" by (simp add: ex_X_def ex_df_def)
  have neg: "(- 1 :: int) < 0" by simp
  have small: "- (- 1) < int (length ex_df)" by (simp add: ex_df_def)
  have n: "length ex_df - nat (- (- 1)) = 2" by (simp add: ex_df_def)
  show ?thesis
    using negative_top_k_drops_tail[where srt = stable_argsort and q = "''graph''" and rest = "[]"
        and query = "''graph''", OF ex_shapes len stable_argsort_is_argsort neg small]
      ex_shapes len small
    by (simp only: ex_minus_one n ex_strip_graph ex_lower_graph) simp
qed

end
